theory Spec2Isabelle
  imports Main
begin

section \<open>Token model (lexer/token.go)\<close>

datatype TokenType = EOF | NEWLINE | WHITESPACE | QUOTE | LBRACE | RBRACE | LBRACKET
  | RBRACKET | COMMA | COLON | NUMBER | STRING | TRUE | FALSE | NULL

text \<open>\<open>TokenType.String\<close>: the name table indexed by the token type.\<close>

fun TokenType_String :: "TokenType \<Rightarrow> string" where
  "TokenType_String EOF = ''EOF''"
| "TokenType_String NEWLINE = ''NEWLINE''"
| "TokenType_String WHITESPACE = ''WHITESPACE''"
| "TokenType_String QUOTE = ''QUOTE''"
| "TokenType_String LBRACE = ''LBRACE''"
| "TokenType_String RBRACE = ''RBRACE''"
| "TokenType_String LBRACKET = ''LBRACKET''"
| "TokenType_String RBRACKET = ''RBRACKET''"
| "TokenType_String COMMA = ''COMMA''"
| "TokenType_String COLON = ''COLON''"
| "TokenType_String NUMBER = ''NUMBER''"
| "TokenType_String STRING = ''STRING''"
| "TokenType_String TRUE = ''TRUE''"
| "TokenType_String FALSE = ''FALSE''"
| "TokenType_String NULL = ''NULL''"

text \<open>
  A Go \<open>string\<close> and a Go \<open>[]byte\<close> are byte sequences: both are \<open>string\<close> here
  (a list of 8-bit \<open>char\<close>s). A \<open>rune\<close> is a Unicode code point (Go's \<open>int32\<close>;
  every rune the decoder yields lies in \<open>0..0x10FFFF\<close>). Go's \<open>int\<close> fields
  \<open>line\<close> and \<open>col\<close> are \<open>int\<close>; byte positions and sizes, which only
  ever grow from zero, are \<open>nat\<close>.
\<close>

type_synonym rune = int

definition rune_of :: "char \<Rightarrow> rune" where
  "rune_of c = of_char c"

text \<open>The \<open>structures\<close> map of token.go.\<close>

definition structures :: "rune \<rightharpoonup> TokenType" where
  "structures =
     [rune_of CHR ''{'' \<mapsto> LBRACE,
      rune_of CHR ''}'' \<mapsto> RBRACE,
      rune_of CHR ''['' \<mapsto> LBRACKET,
      rune_of CHR '']'' \<mapsto> RBRACKET,
      rune_of CHR '','' \<mapsto> COMMA,
      rune_of CHR '':'' \<mapsto> COLON]"

text \<open>
  \<open>structures[r]\<close> without the \<open>ok\<close> result: a missing key reads as the zero value
  of \<open>TokenType\<close>, which is \<open>EOF\<close>.
\<close>

definition structures_get :: "rune \<Rightarrow> TokenType" where
  "structures_get r = (case structures r of None \<Rightarrow> EOF | Some t \<Rightarrow> t)"

record Token =
  Type :: TokenType
  Literal :: string
  Line :: int
  Col :: int
  Pos :: int

section \<open>Standard library: unicode/utf8 and unicode\<close>

text \<open>
  \<open>utf8.DecodeRune\<close> is Go's standard library, not code of the repository. It returns
  the first rune of the buffer and its width in bytes: \<open>(RuneError, 0)\<close> on an empty
  buffer, \<open>(RuneError, 1)\<close> on an invalid or truncated encoding. The accepted ranges of
  the second byte are those of the library's \<open>acceptRanges\<close> table (no overlong
  forms, no surrogates, nothing above \<open>U+10FFFF\<close>).
\<close>

definition RuneError :: rune where
  "RuneError = 0xFFFD"

definition DecodeRune :: "string \<Rightarrow> rune \<times> nat" where
  "DecodeRune p =
     (if p = [] then (RuneError, 0)
      else
        let p0 = (of_char (p ! 0) :: nat) in
        if p0 < 0x80 then (int p0, 1)
        else if p0 < 0xC2 \<or> 0xF4 < p0 then (RuneError, 1)
        else
          let sz = (if p0 < 0xE0 then 2 else if p0 < 0xF0 then 3 else 4 :: nat);
              lo = (if p0 = 0xE0 then 0xA0 else if p0 = 0xF0 then 0x90 else 0x80 :: nat);
              hi = (if p0 = 0xED then 0x9F else if p0 = 0xF4 then 0x8F else 0xBF :: nat)
          in
          if length p < sz then (RuneError, 1)
          else
            let b1 = (of_char (p ! 1) :: nat) in
            if b1 < lo \<or> hi < b1 then (RuneError, 1)
            else if sz \<le> 2 then (int ((p0 mod 0x20) * 0x40 + b1 mod 0x40), 2)
            else
              let b2 = (of_char (p ! 2) :: nat) in
              if b2 < 0x80 \<or> 0xBF < b2 then (RuneError, 1)
              else if sz \<le> 3 then
                (int ((p0 mod 0x10) * 0x1000 + (b1 mod 0x40) * 0x40 + b2 mod 0x40), 3)
              else
                let b3 = (of_char (p ! 3) :: nat) in
                if b3 < 0x80 \<or> 0xBF < b3 then (RuneError, 1)
                else
                  (int ((p0 mod 0x08) * 0x40000 + (b1 mod 0x40) * 0x1000
                        + (b2 mod 0x40) * 0x40 + b3 mod 0x40), 4))"

text \<open>
  \<open>unicode.IsDigit\<close>: for a rune up to \<open>MaxLatin1\<close> the test is \<open>'0' <= r <= '9'\<close>;
  beyond it the library consults its range table \<open>unicode.Digit\<close>, which depends on
  the Unicode version of the toolchain and is not part of the repository. The table is a
  parameter \<open>D\<close> of every function that reaches it.
\<close>

definition unicode_IsDigit :: "(rune \<Rightarrow> bool) \<Rightarrow> rune \<Rightarrow> bool" where
  "unicode_IsDigit D r = (if r \<le> 0xFF then 0x30 \<le> r \<and> r \<le> 0x39 else D r)"

text \<open>
  One instance of the table, for running the functions on concrete buffers: the ranges
  of the decimal digits (general category Nd) as of Unicode 15.0. No ASCII buffer
  reaches it.
\<close>

definition Nd_ranges :: "(rune \<times> rune) list" where
  "Nd_ranges =
     [(0x0030, 0x0039), (0x0660, 0x0669), (0x06F0, 0x06F9), (0x07C0, 0x07C9),
      (0x0966, 0x096F), (0x09E6, 0x09EF), (0x0A66, 0x0A6F), (0x0AE6, 0x0AEF),
      (0x0B66, 0x0B6F), (0x0BE6, 0x0BEF), (0x0C66, 0x0C6F), (0x0CE6, 0x0CEF),
      (0x0D66, 0x0D6F), (0x0DE6, 0x0DEF), (0x0E50, 0x0E59), (0x0ED0, 0x0ED9),
      (0x0F20, 0x0F29), (0x1040, 0x1049), (0x1090, 0x1099), (0x17E0, 0x17E9),
      (0x1810, 0x1819), (0x1946, 0x194F), (0x19D0, 0x19D9), (0x1A80, 0x1A89),
      (0x1A90, 0x1A99), (0x1B50, 0x1B59), (0x1BB0, 0x1BB9), (0x1C40, 0x1C49),
      (0x1C50, 0x1C59), (0xA620, 0xA629), (0xA8D0, 0xA8D9), (0xA900, 0xA909),
      (0xA9D0, 0xA9D9), (0xA9F0, 0xA9F9), (0xAA50, 0xAA59), (0xABF0, 0xABF9),
      (0xFF10, 0xFF19), (0x104A0, 0x104A9), (0x10D30, 0x10D39), (0x11066, 0x1106F),
      (0x110F0, 0x110F9), (0x11136, 0x1113F), (0x111D0, 0x111D9), (0x112F0, 0x112F9),
      (0x11450, 0x11459), (0x114D0, 0x114D9), (0x11650, 0x11659), (0x116C0, 0x116C9),
      (0x11730, 0x11739), (0x118E0, 0x118E9), (0x11950, 0x11959), (0x11C50, 0x11C59),
      (0x11D50, 0x11D59), (0x11DA0, 0x11DA9), (0x11F50, 0x11F59), (0x16A60, 0x16A69),
      (0x16AC0, 0x16AC9), (0x16B50, 0x16B59), (0x1D7CE, 0x1D7FF), (0x1E140, 0x1E149),
      (0x1E2F0, 0x1E2F9), (0x1E4F0, 0x1E4F9), (0x1E950, 0x1E959), (0x1FBF0, 0x1FBF9)]"

definition unicode_Digit :: "rune \<Rightarrow> bool" where
  "unicode_Digit r = list_ex (\<lambda>(lo, hi). lo \<le> r \<and> r \<le> hi) Nd_ranges"

section \<open>Lexer (package lexer, the later of the two versions)\<close>

text \<open>
  The repository holds two versions of the lexer. The one modelled is the later one: it is
  the one that uses the map \<open>structures\<close> and the \<open>String\<close> method of token.go, keeps
  \<open>col\<close>, and returns \<open>(int, error)\<close> from \<open>Next\<close>.
\<close>

text \<open>
  The \<open>input\<close> slice has a length and a capacity. \<open>input\<close> holds the bytes below
  the length, \<open>spare\<close> the bytes of the backing array between length and capacity:
  a slice expression \<open>s[:n]\<close> may reach them, and panics only beyond the capacity.
\<close>

record Lexer =
  input :: string
  spare :: string
  tokens :: "Token list"
  line :: int
  col :: int
  pos :: nat

text \<open>
  How a call ends: it returns, or \<open>log.Fatalf\<close> ends the process, or the runtime
  panics on a slice or index out of range.
\<close>

datatype fatal =
    InvalidUTF8Character int int
  | UnexpectedLexer rune int int
  | ParseUnexpectedEOF int int
  | ExpectedColon int int
  | MustBeObjectOrArray int int
  | ElementExists string

datatype 'a outcome = Ok 'a | Fatal fatal | Panic

text \<open>The \<open>error\<close> values that \<open>fmt.Errorf\<close> builds, by format and arguments.\<close>

datatype error =
    ErrUnexpectedRune rune int int
  | ErrUnexpectedIdentifier int int
  | ErrInvalidUTF8 int int
  | ErrUnexpectedEOF int int

type_synonym next_result = "((nat \<times> error option) \<times> Lexer) outcome"

definition NewLexer :: "string \<Rightarrow> string \<Rightarrow> Lexer" where
  "NewLexer buf sp =
     \<lparr>input = buf, spare = sp, tokens = [], line = 1, col = 0, pos = 0\<rparr>"

definition Reset :: "Lexer \<Rightarrow> Lexer" where
  "Reset l = l\<lparr>tokens := [], pos := 0, col := 0, line := 1\<rparr>"

text \<open>\<open>Token\<close>: \<open>l.tokens[len(l.tokens)-1]\<close>, an index panic on the empty log.\<close>

definition Token :: "Lexer \<Rightarrow> Token outcome" where
  "Token l = (if tokens l = [] then Panic else Ok (last (tokens l)))"

definition Tokens :: "Lexer \<Rightarrow> Token list" where
  "Tokens l = tokens l"

definition Len :: "Lexer \<Rightarrow> nat" where
  "Len l = length (tokens l)"

text \<open>\<open>appendToken\<close> stores \<open>l.pos\<close> in the field \<open>Col\<close> and leaves \<open>Pos\<close> zero.\<close>

definition appendToken :: "TokenType \<Rightarrow> string \<Rightarrow> Lexer \<Rightarrow> Lexer" where
  "appendToken t literal l =
     l\<lparr>tokens := tokens l @
          [\<lparr>Type = t, Literal = literal, Line = line l, Col = int (pos l), Pos = 0\<rparr>]\<rparr>"

text \<open>
  \<open>readReserved\<close>. The condition of the second branch is
  \<open>len(slice) >= 4 && string(slice[:4]) == "true" || string(slice[:4]) == "null"\<close>:
  \<open>&&\<close> binds tighter, so the last comparison slices without a length guard, and the
  branch emits \<open>TRUE\<close> for both words.
\<close>

definition readReserved :: "Lexer \<Rightarrow> next_result" where
  "readReserved l =
     (if length (input l) < pos l then Panic
      else
        let slice = drop (pos l) (input l);
            full = slice @ spare l
        in
        if 5 \<le> length slice \<and> take 5 slice = ''false'' then
          Ok ((4, None), (appendToken FALSE ''false'' l)\<lparr>col := col l + 4\<rparr>)
        else if 4 \<le> length slice \<and> take 4 slice = ''true'' then
          Ok ((3, None), (appendToken TRUE (take 4 slice) l)\<lparr>col := col l + 3\<rparr>)
        else if length full < 4 then Panic
        else if take 4 full = ''null'' then
          Ok ((3, None), (appendToken TRUE (take 4 full) l)\<lparr>col := col l + 3\<rparr>)
        else Ok ((0, Some (ErrUnexpectedIdentifier (line l) (col l))), l))"

text \<open>
  \<open>readString\<close>. Every round decodes the rune at \<open>l.pos\<close>, which the loop never moves;
  \<open>structures[r] == EOF\<close> holds for every rune that is not a key of the map. The loop
  has no bound of its own, so the function is partial: \<open>None\<close> is a run that never
  returns.
\<close>

partial_function (option) readString_loop :: "Lexer \<Rightarrow> nat \<Rightarrow> next_result option" where
  "readString_loop l sz =
     (if length (input l) < pos l then Some Panic
      else
        case DecodeRune (drop (pos l) (input l)) of (r, s) \<Rightarrow>
          if r = RuneError then Some (Ok ((0, Some (ErrInvalidUTF8 (line l) (col l))), l))
          else if structures_get r = EOF then
            Some (Ok ((0, Some (ErrUnexpectedEOF (line l) (col l))), l))
          else if r = rune_of (CHR 0x22) then
            (if sz \<noteq> 0 then
               (if length (input l) + length (spare l) < pos l + sz then Some Panic
                else
                  Some (Ok ((sz + s, None),
                    (appendToken QUOTE [CHR 0x22]
                      (appendToken STRING (take sz (drop (pos l) (input l @ spare l)))
                        (l\<lparr>col := col l - 1\<rparr>)))\<lparr>col := col l + 1\<rparr>)))
             else
               Some (Ok ((sz + s, None),
                 (appendToken QUOTE [CHR 0x22] l)\<lparr>col := col l + 1\<rparr>)))
          else readString_loop (l\<lparr>col := col l + 1\<rparr>) (sz + s))"

declare readString_loop.simps [code]

definition readString :: "Lexer \<Rightarrow> next_result option" where
  "readString l = readString_loop l 0"

text \<open>
  \<open>readNumber\<close>. The scan stops only where \<open>structures[r]\<close> is \<open>WHITESPACE\<close>,
  \<open>NEWLINE\<close> or \<open>COMMA\<close>; a second decimal point and a rune that is no digit end the
  process through \<open>log.Fatalf\<close>, with \<open>l.line\<close> and \<open>l.pos\<close> as arguments. On
  success the result is the whole width scanned, the first rune included.
\<close>

function readNumber_loop :: "(rune \<Rightarrow> bool) \<Rightarrow> Lexer \<Rightarrow> nat \<Rightarrow> bool \<Rightarrow> next_result" where
  "readNumber_loop D l sz hasDecimal =
     (if length (input l) \<le> pos l + sz then
        Ok ((0, Some (ErrUnexpectedEOF (line l) (col l))), l)
      else
        case DecodeRune (drop (pos l + sz) (input l)) of (r, s) \<Rightarrow>
          if r = RuneError then Ok ((0, Some (ErrInvalidUTF8 (line l) (col l))), l)
          else if structures_get r = WHITESPACE \<or> structures_get r = NEWLINE
                  \<or> structures_get r = COMMA then
            Ok ((sz, None), l)
          else if r = rune_of CHR ''.'' then
            (if hasDecimal then Fatal (UnexpectedLexer r (line l) (int (pos l)))
             else readNumber_loop D (l\<lparr>col := col l + 1\<rparr>) (sz + s) True)
          else if \<not> unicode_IsDigit D r then
            Fatal (UnexpectedLexer r (line l) (int (pos l)))
          else readNumber_loop D (l\<lparr>col := col l + 1\<rparr>) (sz + s) hasDecimal)"
  by pat_completeness auto
termination
proof -
  have width: "0 < s" if "(r, s) = DecodeRune (drop n p)" and "n < length p"
    for r :: rune and s n :: nat and p :: string
  proof -
    from that(2) have "drop n p \<noteq> []" by simp
    then have "0 < snd (DecodeRune (drop n p))"
      by (simp add: DecodeRune_def Let_def)
    with that(1) show ?thesis
      by (cases "DecodeRune (drop n p)") simp
  qed
  show ?thesis
    by (relation "measure (\<lambda>(D, l, sz, h). length (input l) - (pos l + sz))")
       (auto dest: width)
qed

declare readNumber_loop.simps [simp del]

definition readNumber :: "(rune \<Rightarrow> bool) \<Rightarrow> Lexer \<Rightarrow> nat \<Rightarrow> next_result" where
  "readNumber D l sz = readNumber_loop D l sz False"

text \<open>
  The end of \<open>Next\<close> after a reader: \<open>return 0, err\<close> on an error, otherwise
  \<open>size += s\<close>, \<open>l.pos += size\<close> and \<open>return size, nil\<close>.
\<close>

definition after_read :: "nat \<Rightarrow> next_result \<Rightarrow> next_result" where
  "after_read sz res =
     (case res of
        Ok ((s, Some err), l') \<Rightarrow> Ok ((0, Some err), l')
      | Ok ((s, None), l') \<Rightarrow> Ok ((sz + s, None), l'\<lparr>pos := pos l' + (sz + s)\<rparr>)
      | Fatal f \<Rightarrow> Fatal f
      | Panic \<Rightarrow> Panic)"

definition emitEOF :: "Lexer \<Rightarrow> next_result" where
  "emitEOF l =
     Ok ((0, None), appendToken EOF (TokenType_String EOF) (l\<lparr>line := line l + 1, col := 0\<rparr>))"

definition Next :: "(rune \<Rightarrow> bool) \<Rightarrow> Lexer \<Rightarrow> next_result option" where
  "Next D l =
     (if length (input l) \<le> pos l then Some (emitEOF l)
      else
        case DecodeRune (drop (pos l) (input l)) of (r, sz) \<Rightarrow>
          if r = RuneError then Some (Fatal (InvalidUTF8Character (line l) (int (pos l))))
          else if sz = 0 then Some (emitEOF l)
          else
            (case structures r of
              Some token \<Rightarrow>
                Some (Ok ((sz, None),
                  (appendToken token (TokenType_String token) (l\<lparr>col := col l + 1\<rparr>))
                    \<lparr>pos := pos l + sz\<rparr>))
            | None \<Rightarrow>
                if r = rune_of (CHR 0x0A) then
                  Some (Ok ((sz, None),
                    (appendToken NEWLINE (TokenType_String NEWLINE)
                       (l\<lparr>line := line l + 1, col := 0\<rparr>))\<lparr>pos := pos l + sz\<rparr>))
                else if r = rune_of CHR '' '' \<or> r = rune_of (CHR 0x09)
                        \<or> r = rune_of (CHR 0x0D) then
                  Some (Ok ((sz, None),
                    (appendToken WHITESPACE (TokenType_String WHITESPACE)
                       (l\<lparr>col := (if r = rune_of (CHR 0x09) then col l + 4 else col l + 1)\<rparr>))
                      \<lparr>pos := pos l + sz\<rparr>))
                else if r = rune_of CHR ''t'' \<or> r = rune_of CHR ''f''
                        \<or> r = rune_of CHR ''n'' then
                  Some (after_read sz (readReserved l))
                else if r = rune_of (CHR 0x22) then
                  map_option (after_read sz) (readString l)
                else if r = rune_of CHR ''-'' \<or> unicode_IsDigit D r then
                  Some (after_read sz (readNumber D l sz))
                else Some (Ok ((0, Some (ErrUnexpectedRune r (line l) (col l))), l))))"

section \<open>Document tree (package parser)\<close>

text \<open>
  The three implementations of the interface \<open>element\<close> are the three constructors,
  each with its \<open>parent\<close> first and then its own field (\<open>m\<close>, \<open>e\<close>, \<open>t\<close>).
  A nil \<open>parent\<close> is \<open>None\<close>. \<open>AddElement\<close> mutates its receiver in place; here
  it returns the receiver as updated.
\<close>

datatype element =
    Object "element option" "string \<rightharpoonup> element"
  | Array "element option" "element list"
  | Value "element option" Token

record Document =
  index :: "string \<rightharpoonup> element"
  elements :: "element list"

fun AddElement :: "element \<Rightarrow> string \<Rightarrow> element \<Rightarrow> element outcome" where
  "AddElement (Object p mp) name el =
     (case mp name of
        Some _ \<Rightarrow> Fatal (ElementExists name)
      | None \<Rightarrow> Ok (Object p (mp(name \<mapsto> el))))"
| "AddElement (Array p es) name el = Ok (Array p (es @ [el]))"
| "AddElement (Value p tok) name el =
     (case p of
        None \<Rightarrow> Panic
      | Some q \<Rightarrow>
          (case AddElement q name el of
             Ok q' \<Rightarrow> Ok (Value (Some q') tok)
           | Fatal f \<Rightarrow> Fatal f
           | Panic \<Rightarrow> Panic))"

text \<open>
  \<open>CreateObject\<close>. The calls \<open>l.Next()\<close> drop both results; every \<open>l.Token()\<close>
  can panic. The loop ends only on a last token of type \<open>RBRACE\<close>, so the function is
  partial. The object returned has a fresh, empty map.
\<close>

partial_function (option) CreateObject_loop ::
    "(rune \<Rightarrow> bool) \<Rightarrow> Lexer \<Rightarrow> Lexer outcome option" where
  "CreateObject_loop D l =
     (case Token l of
        Panic \<Rightarrow> Some Panic
      | Fatal f \<Rightarrow> Some (Fatal f)
      | Ok t0 \<Rightarrow>
          if Type t0 = RBRACE then Some (Ok l)
          else
            (case Next D l of
               None \<Rightarrow> None
             | Some Panic \<Rightarrow> Some Panic
             | Some (Fatal f) \<Rightarrow> Some (Fatal f)
             | Some (Ok (_, l1)) \<Rightarrow>
                 (case Token l1 of
                    Panic \<Rightarrow> Some Panic
                  | Fatal f \<Rightarrow> Some (Fatal f)
                  | Ok t1 \<Rightarrow>
                      if Type t1 = EOF then Some (Fatal (ParseUnexpectedEOF (Line t1) (Col t1)))
                      else if Type t1 = STRING then
                        (case Next D l1 of
                           None \<Rightarrow> None
                         | Some Panic \<Rightarrow> Some Panic
                         | Some (Fatal f) \<Rightarrow> Some (Fatal f)
                         | Some (Ok (_, l2)) \<Rightarrow>
                             (case Token l2 of
                                Panic \<Rightarrow> Some Panic
                              | Fatal f \<Rightarrow> Some (Fatal f)
                              | Ok t2 \<Rightarrow>
                                  if Type t2 \<noteq> COLON then
                                    Some (Fatal (ExpectedColon (Line t2) (Col t2)))
                                  else
                                    (case Next D l2 of
                                       None \<Rightarrow> None
                                     | Some Panic \<Rightarrow> Some Panic
                                     | Some (Fatal f) \<Rightarrow> Some (Fatal f)
                                     | Some (Ok (_, l3)) \<Rightarrow> CreateObject_loop D l3)))
                      else CreateObject_loop D l1)))"

declare CreateObject_loop.simps [code]

definition CreateObject :: "(rune \<Rightarrow> bool) \<Rightarrow> Lexer \<Rightarrow> (element \<times> Lexer) outcome option" where
  "CreateObject D l =
     (case CreateObject_loop D l of
        None \<Rightarrow> None
      | Some Panic \<Rightarrow> Some Panic
      | Some (Fatal f) \<Rightarrow> Some (Fatal f)
      | Some (Ok l') \<Rightarrow> Some (Ok (Object None Map.empty, l')))"

section \<open>Parser (package parser)\<close>

record Parser =
  lexer :: Lexer

definition NewParser :: "string \<Rightarrow> string \<Rightarrow> Parser" where
  "NewParser buf sp = \<lparr>lexer = NewLexer buf sp\<rparr>"

text \<open>
  \<open>Parse\<close> compares \<open>p.lexer.Next()\<close> with \<open>0\<close>, as written for a \<open>Next\<close>
  that returns the byte count alone. Here the comparison reads the byte count of the pair
  that \<open>Next\<close> returns, so a call that returns an error counts as \<open>0\<close>.
  The first loop calls \<open>Next\<close> until it returns \<open>0\<close>, and only logs.
\<close>

partial_function (option) Parse_drain ::
    "(rune \<Rightarrow> bool) \<Rightarrow> Lexer \<Rightarrow> Lexer outcome option" where
  "Parse_drain D l =
     (case Next D l of
        None \<Rightarrow> None
      | Some Panic \<Rightarrow> Some Panic
      | Some (Fatal f) \<Rightarrow> Some (Fatal f)
      | Some (Ok ((n, _), l1)) \<Rightarrow> if n \<noteq> 0 then Parse_drain D l1 else Some (Ok l1))"

declare Parse_drain.simps [code]

partial_function (option) Parse_loop ::
    "(rune \<Rightarrow> bool) \<Rightarrow> Lexer \<Rightarrow> Document \<Rightarrow> (Document \<times> Lexer) outcome option" where
  "Parse_loop D l d =
     (case Next D l of
        None \<Rightarrow> None
      | Some Panic \<Rightarrow> Some Panic
      | Some (Fatal f) \<Rightarrow> Some (Fatal f)
      | Some (Ok ((n, _), l1)) \<Rightarrow>
          if n = 0 then Some (Ok (d, l1))
          else
            (case Token l1 of
               Panic \<Rightarrow> Some Panic
             | Fatal f \<Rightarrow> Some (Fatal f)
             | Ok tok \<Rightarrow>
                 (case Next D l1 of
                    None \<Rightarrow> None
                  | Some Panic \<Rightarrow> Some Panic
                  | Some (Fatal f) \<Rightarrow> Some (Fatal f)
                  | Some (Ok (_, l2)) \<Rightarrow>
                      if Type tok = LBRACE then
                        (case CreateObject D l2 of
                           None \<Rightarrow> None
                         | Some Panic \<Rightarrow> Some Panic
                         | Some (Fatal f) \<Rightarrow> Some (Fatal f)
                         | Some (Ok (obj, l3)) \<Rightarrow>
                             Parse_loop D l3 (d\<lparr>elements := elements d @ [obj]\<rparr>))
                      else if Type tok = LBRACKET then Parse_loop D l2 d
                      else if Type tok = EOF then Some (Ok (d, l2))
                      else Some (Fatal (MustBeObjectOrArray (Line tok) (Pos tok))))))"

declare Parse_loop.simps [code]

definition Parse :: "(rune \<Rightarrow> bool) \<Rightarrow> Parser \<Rightarrow> (Document \<times> Parser) outcome option" where
  "Parse D p =
     (case Parse_drain D (lexer p) of
        None \<Rightarrow> None
      | Some Panic \<Rightarrow> Some Panic
      | Some (Fatal f) \<Rightarrow> Some (Fatal f)
      | Some (Ok l1) \<Rightarrow>
          (case Parse_loop D l1 \<lparr>index = Map.empty, elements = []\<rparr> of
             None \<Rightarrow> None
           | Some Panic \<Rightarrow> Some Panic
           | Some (Fatal f) \<Rightarrow> Some (Fatal f)
           | Some (Ok (d, l2)) \<Rightarrow> Some (Ok (d, p\<lparr>lexer := l2\<rparr>))))"

section \<open>Callers and sample buffers\<close>

text \<open>
  A caller that calls \<open>Next\<close> \<open>n\<close> times in a row and keeps what each call returns.
\<close>

fun Next_results ::
    "(rune \<Rightarrow> bool) \<Rightarrow> nat \<Rightarrow> Lexer \<Rightarrow> ((nat \<times> error option) list \<times> Lexer) outcome option" where
  "Next_results D 0 l = Some (Ok ([], l))"
| "Next_results D (Suc n) l =
     (case Next D l of
        None \<Rightarrow> None
      | Some Panic \<Rightarrow> Some Panic
      | Some (Fatal f) \<Rightarrow> Some (Fatal f)
      | Some (Ok (r, l1)) \<Rightarrow>
          (case Next_results D n l1 of
             None \<Rightarrow> None
           | Some Panic \<Rightarrow> Some Panic
           | Some (Fatal f) \<Rightarrow> Some (Fatal f)
           | Some (Ok (rs, l')) \<Rightarrow> Some (Ok (r # rs, l'))))"




definition sample_duplicate :: string where
  \<open>sample_duplicate = ''{"a":1,"a":2}''\<close>

definition sample_two_points :: string where
  \<open>sample_two_points = ''{"a": 1.2.3}''\<close>

definition sample_string :: string where
  \<open>sample_string = ''"abc"''\<close>

definition sample_third_line :: string where
  "sample_third_line = [CHR 0x0A, CHR 0x0A, CHR ''{'']"

section \<open>Facts about the lexer\<close>

text \<open>The evaluation rules for running the lexer on a concrete buffer.\<close>

lemmas lexer_eval = Next_def NewLexer_def DecodeRune_def structures_def structures_get_def
  rune_of_def RuneError_def readReserved_def after_read_def appendToken_def emitEOF_def
  Let_def readString_def readNumber_def unicode_IsDigit_def

lemma appendToken_fields [simp]:
  "input (appendToken ty lit l) = input l"
  "spare (appendToken ty lit l) = spare l"
  "line (appendToken ty lit l) = line l"
  "col (appendToken ty lit l) = col l"
  "pos (appendToken ty lit l) = pos l"
  "tokens (appendToken ty lit l) =
     tokens l @ [\<lparr>Type = ty, Literal = lit, Line = line l, Col = int (pos l), Pos = 0\<rparr>]"
  by (simp_all add: appendToken_def)

lemma structures_get_quote: "structures_get (rune_of (CHR 0x22)) = EOF"
  by (simp add: structures_get_def structures_def rune_of_def)

lemma readString_on_quote:
  assumes "pos l \<le> length (input l)"
    and "fst (DecodeRune (drop (pos l) (input l))) = rune_of (CHR 0x22)"
  shows "readString l = Some (Ok ((0, Some (ErrUnexpectedEOF (line l) (col l))), l))"
proof -
  obtain s where d: "DecodeRune (drop (pos l) (input l)) = (rune_of (CHR 0x22), s)"
    using assms(2) by (cases "DecodeRune (drop (pos l) (input l))") simp
  have ne: "rune_of (CHR 0x22) \<noteq> RuneError"
    by (simp add: rune_of_def RuneError_def)
  show ?thesis
    unfolding readString_def
    by (subst readString_loop.simps) (use assms(1) d ne in \<open>simp add: structures_get_quote\<close>)
qed

lemma readNumber_loop_frame:
  "readNumber_loop D l sz h = Ok (r, l') \<Longrightarrow>
     pos l' = pos l \<and> input l' = input l \<and> spare l' = spare l \<and> tokens l' = tokens l
     \<and> line l' = line l"
proof (induction D l sz h rule: readNumber_loop.induct)
  case (1 D l sz hasDecimal)
  show ?case
    using "1.prems" "1.IH"
    by (subst (asm) readNumber_loop.simps) (auto split: if_splits prod.splits)
qed

lemma readReserved_frame:
  "readReserved l = Ok (r, l') \<Longrightarrow>
     pos l' = pos l \<and> input l' = input l \<and> spare l' = spare l \<and> line l' = line l"
  by (auto simp: readReserved_def Let_def split: if_splits)


lemma DecodeRune_width: "p \<noteq> [] \<Longrightarrow> DecodeRune p = (r, sz) \<Longrightarrow> 0 < sz"
  by (auto simp: DecodeRune_def Let_def split: if_splits)

lemma Next_cases [case_names eof invalid struct newline whitespace reserved
    quote number other]:
  obtains
    (eof) "length (input l) \<le> pos l" and "Next D l = Some (emitEOF l)"
  | (invalid) "pos l < length (input l)"
      and "Next D l = Some (Fatal (InvalidUTF8Character (line l) (int (pos l))))"
  | (struct) r sz token where "pos l < length (input l)"
      and "DecodeRune (drop (pos l) (input l)) = (r, sz)" and "structures r = Some token"
      and "Next D l = Some (Ok ((sz, None),
             (appendToken token (TokenType_String token) (l\<lparr>col := col l + 1\<rparr>))
               \<lparr>pos := pos l + sz\<rparr>))"
  | (newline) sz where "pos l < length (input l)"
      and "DecodeRune (drop (pos l) (input l)) = (rune_of (CHR 0x0A), sz)"
      and "Next D l = Some (Ok ((sz, None),
             (appendToken NEWLINE (TokenType_String NEWLINE)
                (l\<lparr>line := line l + 1, col := 0\<rparr>))\<lparr>pos := pos l + sz\<rparr>))"
  | (whitespace) r sz where "pos l < length (input l)"
      and "DecodeRune (drop (pos l) (input l)) = (r, sz)"
      and "r = rune_of CHR '' '' \<or> r = rune_of (CHR 0x09) \<or> r = rune_of (CHR 0x0D)"
      and "Next D l = Some (Ok ((sz, None),
             (appendToken WHITESPACE (TokenType_String WHITESPACE)
                (l\<lparr>col := (if r = rune_of (CHR 0x09) then col l + 4 else col l + 1)\<rparr>))
               \<lparr>pos := pos l + sz\<rparr>))"
  | (reserved) r sz where "pos l < length (input l)"
      and "DecodeRune (drop (pos l) (input l)) = (r, sz)"
      and "r = rune_of CHR ''t'' \<or> r = rune_of CHR ''f'' \<or> r = rune_of CHR ''n''"
      and "Next D l = Some (after_read sz (readReserved l))"
  | (quote) sz where "pos l < length (input l)"
      and "DecodeRune (drop (pos l) (input l)) = (rune_of (CHR 0x22), sz)"
      and "Next D l = Some (Ok ((0, Some (ErrUnexpectedEOF (line l) (col l))), l))"
  | (number) r sz where "pos l < length (input l)"
      and "DecodeRune (drop (pos l) (input l)) = (r, sz)"
      and "r = rune_of CHR ''-'' \<or> unicode_IsDigit D r"
      and "Next D l = Some (after_read sz (readNumber D l sz))"
  | (other) r sz where "pos l < length (input l)"
      and "DecodeRune (drop (pos l) (input l)) = (r, sz)"
      and "structures r = None" and "\<not> unicode_IsDigit D r"
      and "Next D l = Some (Ok ((0, Some (ErrUnexpectedRune r (line l) (col l))), l))"
proof (cases "length (input l) \<le> pos l")
  case True
  with eof show ?thesis by (simp add: Next_def)
next
  case False
  then have lt: "pos l < length (input l)" by simp
  obtain r sz where d: "DecodeRune (drop (pos l) (input l)) = (r, sz)"
    by (cases "DecodeRune (drop (pos l) (input l))")
  from lt d have sz: "sz \<noteq> 0"
    using DecodeRune_width [of "drop (pos l) (input l)" r sz] by simp
  show ?thesis
  proof (cases "r = RuneError")
    case True
    with False d invalid [OF lt] show ?thesis by (simp add: Next_def)
  next
    case nerr: False
    show ?thesis
    proof (cases "structures r")
      case (Some token)
      with False d nerr sz struct [OF lt d Some] show ?thesis
        by (simp add: Next_def)
    next
      case None
      note base = False d nerr sz None
      consider (a) "r = rune_of (CHR 0x0A)"
        | (b) "r \<noteq> rune_of (CHR 0x0A)"
            "r = rune_of CHR '' '' \<or> r = rune_of (CHR 0x09) \<or> r = rune_of (CHR 0x0D)"
        | (c) "r \<noteq> rune_of (CHR 0x0A)"
            "\<not> (r = rune_of CHR '' '' \<or> r = rune_of (CHR 0x09) \<or> r = rune_of (CHR 0x0D))"
            "r = rune_of CHR ''t'' \<or> r = rune_of CHR ''f'' \<or> r = rune_of CHR ''n''"
        | (d) "r \<noteq> rune_of (CHR 0x0A)"
            "\<not> (r = rune_of CHR '' '' \<or> r = rune_of (CHR 0x09) \<or> r = rune_of (CHR 0x0D))"
            "\<not> (r = rune_of CHR ''t'' \<or> r = rune_of CHR ''f'' \<or> r = rune_of CHR ''n'')"
            "r = rune_of (CHR 0x22)"
        | (e) "r \<noteq> rune_of (CHR 0x0A)"
            "\<not> (r = rune_of CHR '' '' \<or> r = rune_of (CHR 0x09) \<or> r = rune_of (CHR 0x0D))"
            "\<not> (r = rune_of CHR ''t'' \<or> r = rune_of CHR ''f'' \<or> r = rune_of CHR ''n'')"
            "r \<noteq> rune_of (CHR 0x22)" "r = rune_of CHR ''-'' \<or> unicode_IsDigit D r"
        | (f) "r \<noteq> rune_of (CHR 0x0A)"
            "\<not> (r = rune_of CHR '' '' \<or> r = rune_of (CHR 0x09) \<or> r = rune_of (CHR 0x0D))"
            "\<not> (r = rune_of CHR ''t'' \<or> r = rune_of CHR ''f'' \<or> r = rune_of CHR ''n'')"
            "r \<noteq> rune_of (CHR 0x22)" "\<not> (r = rune_of CHR ''-'' \<or> unicode_IsDigit D r)"
        by blast
      then show ?thesis
      proof cases
        case a
        with base have "Next D l = Some (Ok ((sz, None),
             (appendToken NEWLINE (TokenType_String NEWLINE)
                (l\<lparr>line := line l + 1, col := 0\<rparr>))\<lparr>pos := pos l + sz\<rparr>))"
          by (simp add: Next_def)
        with a d lt newline show ?thesis by simp
      next
        case b
        with base have "Next D l = Some (Ok ((sz, None),
             (appendToken WHITESPACE (TokenType_String WHITESPACE)
                (l\<lparr>col := (if r = rune_of (CHR 0x09) then col l + 4 else col l + 1)\<rparr>))
               \<lparr>pos := pos l + sz\<rparr>))"
          by (simp add: Next_def)
        with b d lt whitespace show ?thesis by blast
      next
        case c
        with base have "Next D l = Some (after_read sz (readReserved l))"
          by (simp add: Next_def)
        with c d lt reserved show ?thesis by blast
      next
        case d
        with lt \<open>DecodeRune (drop (pos l) (input l)) = (r, sz)\<close>
        have "readString l = Some (Ok ((0, Some (ErrUnexpectedEOF (line l) (col l))), l))"
          by (intro readString_on_quote) simp_all
        with d base have "Next D l = Some (Ok ((0, Some (ErrUnexpectedEOF (line l) (col l))), l))"
          by (simp add: Next_def after_read_def)
        with d lt \<open>DecodeRune (drop (pos l) (input l)) = (r, sz)\<close> quote show ?thesis by blast
      next
        case e
        with base have "Next D l = Some (after_read sz (readNumber D l sz))"
          by (simp add: Next_def)
        with e d lt number show ?thesis by blast
      next
        case f
        with base have "Next D l = Some (Ok ((0, Some (ErrUnexpectedRune r (line l) (col l))), l))"
          by (simp add: Next_def)
        with f d lt None other show ?thesis by blast
      qed
    qed
  qed
qed

lemma Next_total: "\<exists>y. Next D l = Some y"
  by (cases rule: Next_cases [of l D]) blast+

lemma after_read_frame:
  assumes "after_read sz res = Ok (x, l')"
    and "\<And>y l1. res = Ok (y, l1) \<Longrightarrow> pos l1 = pos l \<and> input l1 = input l \<and> spare l1 = spare l"
  shows "pos l \<le> pos l' \<and> input l' = input l \<and> spare l' = spare l"
proof (cases res)
  case (Ok a)
  obtain s e l1 where a: "a = ((s, e), l1)" by (metis prod.exhaust)
  with Ok assms(2) have f: "pos l1 = pos l \<and> input l1 = input l \<and> spare l1 = spare l"
    by simp
  from assms(1) Ok a f show ?thesis
    by (cases e) (auto simp: after_read_def)
qed (use assms(1) in \<open>simp_all add: after_read_def\<close>)

lemma Next_frame:
  assumes "Next D l = Some (Ok (res, l'))"
  shows "pos l \<le> pos l' \<and> input l' = input l \<and> spare l' = spare l"
proof (cases rule: Next_cases [of l D])
  case (reserved r sz)
  with assms have "after_read sz (readReserved l) = Ok (res, l')" by simp
  then show ?thesis
    by (rule after_read_frame) (auto dest: readReserved_frame)
next
  case (number r sz)
  with assms have "after_read sz (readNumber D l sz) = Ok (res, l')" by simp
  then show ?thesis
    by (rule after_read_frame) (auto simp: readNumber_def dest: readNumber_loop_frame)
qed (use assms in \<open>auto simp: emitEOF_def\<close>)

lemma Next_at_end:
  assumes "length (input l) \<le> pos l"
  shows "Next D l = Some (Ok ((0, None),
     l\<lparr>line := line l + 1, col := 0,
       tokens := tokens l @
         [\<lparr>Type = EOF, Literal = ''EOF'', Line = line l + 1, Col = int (pos l), Pos = 0\<rparr>]\<rparr>))"
  using assms by (simp add: Next_def emitEOF_def appendToken_def)

lemma Next_results_at_end:
  "length (input l) \<le> pos l \<Longrightarrow>
     \<exists>l'. Next_results D n l = Some (Ok (replicate n (0, None), l')) \<and> pos l' = pos l
       \<and> input l' = input l
       \<and> map Type (tokens l') = map Type (tokens l) @ replicate n EOF"
proof (induction n arbitrary: l)
  case 0
  then show ?case by simp
next
  case (Suc n)
  let ?l1 = "l\<lparr>line := line l + 1, col := 0,
       tokens := tokens l @
         [\<lparr>Type = EOF, Literal = ''EOF'', Line = line l + 1, Col = int (pos l), Pos = 0\<rparr>]\<rparr>"
  have "length (input ?l1) \<le> pos ?l1" using Suc.prems by simp
  from Suc.IH [OF this] obtain l' where
    "Next_results D n ?l1 = Some (Ok (replicate n (0, None), l'))"
    "pos l' = pos l" "input l' = input l"
    "map Type (tokens l') = map Type (tokens ?l1) @ replicate n EOF"
    by auto
  then show ?case
    using Next_at_end [OF Suc.prems, of D]
    by (simp add: replicate_app_Cons_same)
qed

lemma Next_results_Suc:
  assumes "Next_results D (Suc n) l = Some (Ok (rs, l'))"
  obtains r l1 rs' where "Next D l = Some (Ok (r, l1))"
    and "Next_results D n l1 = Some (Ok (rs', l'))" and "rs = r # rs'"
  using assms by (auto split: option.splits outcome.splits)

lemma Next_results_frame:
  "Next_results D n l = Some (Ok (rs, l')) \<Longrightarrow>
     pos l \<le> pos l' \<and> input l' = input l \<and> spare l' = spare l"
proof (induction n arbitrary: l rs)
  case 0
  then show ?case by simp
next
  case (Suc n)
  from Suc.prems obtain r l1 rs' where
    n1: "Next D l = Some (Ok (r, l1))" and rest: "Next_results D n l1 = Some (Ok (rs', l'))"
    by (rule Next_results_Suc)
  from Next_frame [OF n1] Suc.IH [OF rest] show ?case by simp
qed

lemma Reset_fresh: "Reset l = NewLexer (input l) (spare l)"
  by (simp add: Reset_def NewLexer_def)

lemma Next_error_keeps_log:
  assumes "Next D l = Some (Ok ((n, Some err), l'))"
  shows "tokens l' = tokens l \<and> pos l' = pos l \<and> n = 0"
proof (cases rule: Next_cases [of l D])
  case (reserved r sz)
  with assms have "after_read sz (readReserved l) = Ok ((n, Some err), l')" by simp
  then show ?thesis
    by (auto simp: after_read_def readReserved_def Let_def
          split: outcome.splits option.splits if_splits)
next
  case (number r sz)
  with assms have "after_read sz (readNumber D l sz) = Ok ((n, Some err), l')" by simp
  then show ?thesis
    by (auto simp: after_read_def readNumber_def split: outcome.splits option.splits
          dest: readNumber_loop_frame)
qed (use assms in \<open>auto simp: emitEOF_def\<close>)

lemma Next_results_all_failed:
  "Next_results D n l = Some (Ok (rs, l')) \<Longrightarrow> list_all (\<lambda>r. snd r \<noteq> None) rs \<Longrightarrow>
     tokens l' = tokens l"
proof (induction n arbitrary: l rs)
  case 0
  then show ?case by simp
next
  case (Suc n)
  from Suc.prems(1) obtain r l1 rs' where
    n1: "Next D l = Some (Ok (r, l1))" and rest: "Next_results D n l1 = Some (Ok (rs', l'))"
    and rs: "rs = r # rs'"
    by (rule Next_results_Suc)
  from Suc.prems(2) rs obtain k err where r: "r = (k, Some err)"
    by (cases r) auto
  from Suc.prems(2) rs have "list_all (\<lambda>r. snd r \<noteq> None) rs'" by simp
  from Suc.IH [OF rest this] Next_error_keeps_log [OF n1 [unfolded r]] show ?case by simp
qed

text \<open>
  With the cursor on a quote, whatever follows, \<open>Next\<close> returns the error of
  \<open>readString\<close>'s first round and changes nothing.
\<close>

lemma DecodeRune_ascii:
  "n < length p \<Longrightarrow> (of_char (p ! n) :: nat) < 0x80 \<Longrightarrow>
     DecodeRune (drop n p) = (int (of_char (p ! n)), 1)"
  by (simp add: DecodeRune_def Let_def hd_drop_conv_nth flip: hd_conv_nth)

lemma Next_on_quote:
  assumes "pos l < length (input l)" and "input l ! pos l = CHR 0x22"
  shows "Next D l = Some (Ok ((0, Some (ErrUnexpectedEOF (line l) (col l))), l))"
proof -
  have d: "DecodeRune (drop (pos l) (input l)) = (rune_of (CHR 0x22), 1)"
    using DecodeRune_ascii [OF assms(1)] assms(2) by (simp add: rune_of_def)
  have q: "readString l = Some (Ok ((0, Some (ErrUnexpectedEOF (line l) (col l))), l))"
    using assms(1) d by (intro readString_on_quote) simp_all
  show ?thesis
    using assms(1) d q
    by (simp add: Next_def structures_def rune_of_def RuneError_def after_read_def)
qed

lemma structures_range:
  "structures r = Some ty \<Longrightarrow> ty \<in> {LBRACE, RBRACE, LBRACKET, RBRACKET, COMMA, COLON}"
  by (auto simp: structures_def split: if_splits)

lemma Next_new_tokens:
  assumes "Next D l = Some (Ok (res, l'))"
  shows "tokens l' = tokens l
     \<or> (\<exists>tk. tokens l' = tokens l @ [tk]
          \<and> Type tk \<in> {EOF, NEWLINE, WHITESPACE, LBRACE, RBRACE, LBRACKET, RBRACKET, COMMA,
               COLON, TRUE, FALSE})"
proof (cases rule: Next_cases [of l D])
  case (struct r sz token)
  from structures_range [OF struct(3)] struct(4) assms show ?thesis by auto
next
  case (reserved r sz)
  with assms have "after_read sz (readReserved l) = Ok (res, l')" by simp
  then show ?thesis
    by (auto simp: after_read_def readReserved_def Let_def
          split: outcome.splits option.splits if_splits)
next
  case (number r sz)
  with assms have "after_read sz (readNumber D l sz) = Ok (res, l')" by simp
  then show ?thesis
    by (auto simp: after_read_def readNumber_def split: outcome.splits option.splits
          dest!: readNumber_loop_frame)
qed (use assms in \<open>auto simp: emitEOF_def\<close>)

section \<open>Facts about the parser\<close>

text \<open>The evaluation rules for running the parser on a concrete buffer.\<close>

lemmas parser_eval = Parse_def NewParser_def Parse_drain.simps Parse_loop.simps
  CreateObject_def CreateObject_loop.simps Token_def readString_loop.simps readNumber_loop.simps




section \<open>Claims\<close>

text \<open>
  Claim C6. Whenever \<open>Next\<close> returns, with or without an error, the byte cursor
  \<open>pos\<close> after the call is at least the cursor before it, and \<open>Next\<close> never runs
  forever. With the cursor at or past the end of the buffer, \<open>Next\<close> appends an
  \<open>EOF\<close> token and returns \<open>0\<close> and no error; any number of further calls does
  the same, the cursor staying where it is.
\<close>

theorem Next_cursor_forward:
  "(Next D l = Some (Ok (res, l')) \<longrightarrow> pos l \<le> pos l')
   \<and> (\<exists>y. Next D l = Some y)
   \<and> (length (input le) \<le> pos le \<longrightarrow>
        Next D le = Some (Ok ((0, None),
          le\<lparr>line := line le + 1, col := 0,
            tokens := tokens le @
              [\<lparr>Type = EOF, Literal = ''EOF'', Line = line le + 1, Col = int (pos le),
                Pos = 0\<rparr>]\<rparr>))
        \<and> (\<exists>ln. Next_results D n le = Some (Ok (replicate n (0, None), ln))
              \<and> pos ln = pos le \<and> input ln = input le
              \<and> map Type (tokens ln) = map Type (tokens le) @ replicate n EOF))"
proof (intro conjI impI)
  assume "Next D l = Some (Ok (res, l'))"
  then show "pos l \<le> pos l'" by (simp add: Next_frame)
next
  show "\<exists>y. Next D l = Some y" by (rule Next_total)
next
  assume "length (input le) \<le> pos le"
  then show "Next D le = Some (Ok ((0, None),
          le\<lparr>line := line le + 1, col := 0,
            tokens := tokens le @
              [\<lparr>Type = EOF, Literal = ''EOF'', Line = line le + 1, Col = int (pos le),
                Pos = 0\<rparr>]\<rparr>))"
    by (rule Next_at_end)
next
  assume "length (input le) \<le> pos le"
  then show "\<exists>ln. Next_results D n le = Some (Ok (replicate n (0, None), ln))
              \<and> pos ln = pos le \<and> input ln = input le
              \<and> map Type (tokens ln) = map Type (tokens le) @ replicate n EOF"
    by (rule Next_results_at_end)
qed

theorem Next_cursor_forward_witness:
  "Next unicode_Digit (NewLexer ''{}'' []) =
     Some (Ok ((1, None),
       \<lparr>input = ''{}'', spare = [],
        tokens = [\<lparr>Type = LBRACE, Literal = ''LBRACE'', Line = 1, Col = 0, Pos = 0\<rparr>],
        line = 1, col = 1, pos = 1\<rparr>))
   \<and> pos (NewLexer ''{}'' []) \<le> 1
   \<and> length (input \<lparr>input = ''{}'', spare = [], tokens = [], line = 1, col = 2, pos = 2\<rparr>)
        \<le> pos \<lparr>input = ''{}'', spare = [], tokens = [], line = 1, col = 2, pos = 2\<rparr>
   \<and> Next unicode_Digit \<lparr>input = ''{}'', spare = [], tokens = [], line = 1, col = 2, pos = 2\<rparr> =
       Some (Ok ((0, None),
         \<lparr>input = ''{}'', spare = [],
          tokens = [\<lparr>Type = EOF, Literal = ''EOF'', Line = 2, Col = 2, Pos = 0\<rparr>],
          line = 2, col = 0, pos = 2\<rparr>))
   \<and> (\<exists>ln. Next_results unicode_Digit 3
               \<lparr>input = ''{}'', spare = [], tokens = [], line = 1, col = 2, pos = 2\<rparr>
             = Some (Ok ([(0, None), (0, None), (0, None)], ln))
           \<and> pos ln = 2 \<and> map Type (tokens ln) = [EOF, EOF, EOF])"
proof -
  let ?l = "NewLexer ''{}'' []"
  let ?l' = "\<lparr>input = ''{}'', spare = [],
        tokens = [\<lparr>Type = LBRACE, Literal = ''LBRACE'', Line = 1, Col = 0, Pos = 0\<rparr>],
        line = 1, col = 1, pos = 1\<rparr>"
  let ?le = "\<lparr>input = ''{}'', spare = [], tokens = [], line = 1, col = 2, pos = 2\<rparr>"
  have a: "Next unicode_Digit ?l = Some (Ok ((1, None), ?l'))"
    by (simp add: lexer_eval)
  have b: "length (input ?le) \<le> pos ?le" by simp
  have r: "replicate 3 EOF = [EOF, EOF, EOF]"
    "replicate 3 (0 :: nat, None :: error option) = [(0, None), (0, None), (0, None)]"
    by (simp_all add: numeral_3_eq_3)
  from Next_cursor_forward [of unicode_Digit ?l "(1, None)" ?l' ?le 3] a b
  show ?thesis by (auto simp add: r)
qed

text \<open>
  Claim C7. \<open>Reset\<close> puts a lexer into the state that \<open>NewLexer\<close> builds over the
  same buffer: the token log is empty and the buffer is the one it was. For a lexer
  reached from a fresh one by any number of \<open>Next\<close> calls, the state after
  \<open>Reset\<close> is the fresh lexer itself, so every later call and every later run of
  calls returns what it returns on the fresh lexer, and leaves the same tokens. (A nil and an empty token slice are
  one value here: \<open>append\<close>, \<open>len\<close> and indexing do not tell them apart.)
\<close>

theorem Reset_behaves_as_fresh:
  "Reset l = NewLexer (input l) (spare l)
   \<and> tokens (Reset l) = [] \<and> input (Reset l) = input l \<and> spare (Reset l) = spare l
   \<and> (Next_results D n (NewLexer buf sp) = Some (Ok (rs, ln)) \<longrightarrow>
        Reset ln = NewLexer buf sp
        \<and> Next D (Reset ln) = Next D (NewLexer buf sp)
        \<and> Next_results D k (Reset ln) = Next_results D k (NewLexer buf sp)
        \<and> input (Reset ln) = buf)"
proof (intro conjI impI)
  show fresh: "Reset l = NewLexer (input l) (spare l)" by (rule Reset_fresh)
  show "tokens (Reset l) = []" "input (Reset l) = input l" "spare (Reset l) = spare l"
    by (simp_all add: Reset_def)
next
  assume run: "Next_results D n (NewLexer buf sp) = Some (Ok (rs, ln))"
  from Next_results_frame [OF run] have "input ln = buf" "spare ln = sp"
    by (simp_all add: NewLexer_def)
  then show eq: "Reset ln = NewLexer buf sp" by (simp add: Reset_fresh)
  then show "Next D (Reset ln) = Next D (NewLexer buf sp)"
    "Next_results D k (Reset ln) = Next_results D k (NewLexer buf sp)" by simp_all
  from eq show "input (Reset ln) = buf" by (simp add: NewLexer_def)
qed

theorem Reset_behaves_as_fresh_witness:
  "Next_results unicode_Digit 2 (NewLexer ''{}'' []) =
     Some (Ok ([(1, None), (1, None)],
       \<lparr>input = ''{}'', spare = [],
        tokens = [\<lparr>Type = LBRACE, Literal = ''LBRACE'', Line = 1, Col = 0, Pos = 0\<rparr>,
                  \<lparr>Type = RBRACE, Literal = ''RBRACE'', Line = 1, Col = 1, Pos = 0\<rparr>],
        line = 1, col = 2, pos = 2\<rparr>))
   \<and> Reset \<lparr>input = ''{}'', spare = [],
        tokens = [\<lparr>Type = LBRACE, Literal = ''LBRACE'', Line = 1, Col = 0, Pos = 0\<rparr>,
                  \<lparr>Type = RBRACE, Literal = ''RBRACE'', Line = 1, Col = 1, Pos = 0\<rparr>],
        line = 1, col = 2, pos = 2\<rparr> = NewLexer ''{}'' []
   \<and> Next_results unicode_Digit 2 (Reset \<lparr>input = ''{}'', spare = [],
        tokens = [\<lparr>Type = LBRACE, Literal = ''LBRACE'', Line = 1, Col = 0, Pos = 0\<rparr>,
                  \<lparr>Type = RBRACE, Literal = ''RBRACE'', Line = 1, Col = 1, Pos = 0\<rparr>],
        line = 1, col = 2, pos = 2\<rparr>) = Next_results unicode_Digit 2 (NewLexer ''{}'' [])"
proof -
  let ?ln = "\<lparr>input = ''{}'', spare = [],
        tokens = [\<lparr>Type = LBRACE, Literal = ''LBRACE'', Line = 1, Col = 0, Pos = 0\<rparr>,
                  \<lparr>Type = RBRACE, Literal = ''RBRACE'', Line = 1, Col = 1, Pos = 0\<rparr>],
        line = 1, col = 2, pos = 2\<rparr>"
  have run: "Next_results unicode_Digit 2 (NewLexer ''{}'' []) =
      Some (Ok ([(1, None), (1, None)], ?ln))"
    by (simp add: numeral_2_eq_2 lexer_eval)
  from Reset_behaves_as_fresh
    [of ?ln unicode_Digit 2 "''{}''" "[]" "[(1, None), (1, None)]" ?ln 2] run
  show ?thesis by simp
qed

text \<open>
  Claim C10. \<open>Token\<close> returns a token exactly when the token log is not empty, and
  then it is the token appended last; on an empty log, so on a fresh lexer and right
  after \<open>Reset\<close>, the index is out of range and the call panics. A call of \<open>Next\<close>
  that returns an error appends nothing: after any run of calls that all returned an
  error, from an empty log, \<open>Token\<close> still panics, so it needs a call that succeeded.
\<close>

theorem Token_needs_emitted_token:
  "((\<exists>tk. Token l = Ok tk) \<longleftrightarrow> tokens l \<noteq> [])
   \<and> (tokens l \<noteq> [] \<longrightarrow> Token l = Ok (last (tokens l)))
   \<and> Token (appendToken ty lit l) =
       Ok \<lparr>Type = ty, Literal = lit, Line = line l, Col = int (pos l), Pos = 0\<rparr>
   \<and> (tokens l0 = [] \<longrightarrow> Token l0 = Panic)
   \<and> Token (NewLexer buf sp) = Panic
   \<and> Token (Reset l) = Panic
   \<and> (Next D lf = Some (Ok ((n, Some err), lf')) \<longrightarrow> tokens lf' = tokens lf)
   \<and> (tokens l0 = [] \<and> Next_results D k l0 = Some (Ok (rs, lk))
        \<and> list_all (\<lambda>r. snd r \<noteq> None) rs \<longrightarrow> Token lk = Panic)"
proof (intro conjI impI)
  show "(\<exists>tk. Token l = Ok tk) \<longleftrightarrow> tokens l \<noteq> []"
    by (simp add: Token_def)
  show "Token (appendToken ty lit l) =
       Ok \<lparr>Type = ty, Literal = lit, Line = line l, Col = int (pos l), Pos = 0\<rparr>"
    by (simp add: Token_def)
  show "Token (NewLexer buf sp) = Panic" by (simp add: Token_def NewLexer_def)
  show "Token (Reset l) = Panic" by (simp add: Token_def Reset_def)
next
  assume "tokens l \<noteq> []"
  then show "Token l = Ok (last (tokens l))" by (simp add: Token_def)
next
  assume "tokens l0 = []"
  then show "Token l0 = Panic" by (simp add: Token_def)
next
  assume "Next D lf = Some (Ok ((n, Some err), lf'))"
  then show "tokens lf' = tokens lf" by (simp add: Next_error_keeps_log)
next
  assume "tokens l0 = [] \<and> Next_results D k l0 = Some (Ok (rs, lk))
        \<and> list_all (\<lambda>r. snd r \<noteq> None) rs"
  then have "tokens lk = []" using Next_results_all_failed [of D k l0 rs lk] by simp
  then show "Token lk = Panic" by (simp add: Token_def)
qed

theorem Token_needs_emitted_token_witness:
  "Token \<lparr>input = ''{}'', spare = [],
        tokens = [\<lparr>Type = LBRACE, Literal = ''LBRACE'', Line = 1, Col = 0, Pos = 0\<rparr>],
        line = 1, col = 1, pos = 1\<rparr>
     = Ok \<lparr>Type = LBRACE, Literal = ''LBRACE'', Line = 1, Col = 0, Pos = 0\<rparr>
   \<and> Token (NewLexer sample_string []) = Panic
   \<and> Next unicode_Digit (NewLexer sample_string []) =
       Some (Ok ((0, Some (ErrUnexpectedEOF 1 0)), NewLexer sample_string []))
   \<and> tokens (NewLexer sample_string []) = []
   \<and> Next_results unicode_Digit 2 (NewLexer sample_string []) =
       Some (Ok ([(0, Some (ErrUnexpectedEOF 1 0)), (0, Some (ErrUnexpectedEOF 1 0))],
         NewLexer sample_string []))"
proof -
  let ?l = "\<lparr>input = ''{}'', spare = [],
        tokens = [\<lparr>Type = LBRACE, Literal = ''LBRACE'', Line = 1, Col = 0, Pos = 0\<rparr>],
        line = 1, col = 1, pos = 1\<rparr>"
  let ?lf = "NewLexer sample_string []"
  have ne: "tokens ?l \<noteq> []" by simp
  have e: "tokens ?lf = []" by (simp add: NewLexer_def)
  have f: "Next unicode_Digit ?lf = Some (Ok ((0, Some (ErrUnexpectedEOF 1 0)), ?lf))"
    by (simp add: lexer_eval sample_string_def readString_loop.simps)
  have g: "Next_results unicode_Digit 2 ?lf =
      Some (Ok ([(0, Some (ErrUnexpectedEOF 1 0)), (0, Some (ErrUnexpectedEOF 1 0))], ?lf))"
    by (simp add: numeral_2_eq_2 f)
  from Token_needs_emitted_token
    [of ?l LBRACE "''LBRACE''" ?lf sample_string "[]" unicode_Digit ?lf 0
      "ErrUnexpectedEOF 1 0" ?lf 2
      "[(0, Some (ErrUnexpectedEOF 1 0)), (0, Some (ErrUnexpectedEOF 1 0))]" ?lf]
    ne e f g
  show ?thesis by simp
qed

text \<open>
  Claim C2, at the buffer \<open>null\<close>: \<open>Next\<close> appends a token of type \<open>TRUE\<close>
  (not \<open>NULL\<close>) with the literal \<open>null\<close> and returns 4. At the buffer \<open>tru\<close>,
  whose capacity is its length, the mismatch is no error value: the unguarded
  \<open>slice[:4]\<close> panics.
\<close>

theorem readReserved_null_emits_TRUE:
  "Next unicode_Digit (NewLexer ''null'' []) =
     Some (Ok ((4, None),
       \<lparr>input = ''null'', spare = [],
        tokens = [\<lparr>Type = TRUE, Literal = ''null'', Line = 1, Col = 0, Pos = 0\<rparr>],
        line = 1, col = 3, pos = 4\<rparr>))
   \<and> Next unicode_Digit (NewLexer ''tru'' []) = Some Panic"
  by (simp add: lexer_eval)

text \<open>
  Claim C3, at the buffer \<open>"abc"\<close>: \<open>Next\<close> returns \<open>0\<close> and the error
  "unexpected EOF at 1:0", appends no token and leaves the lexer as it was, although the
  closing quote is in the buffer.
\<close>

theorem readString_fails_on_closed_string:
  "Next unicode_Digit (NewLexer sample_string []) =
     Some (Ok ((0, Some (ErrUnexpectedEOF 1 0)), NewLexer sample_string []))
   \<and> tokens (NewLexer sample_string []) = []"
  by (simp add: lexer_eval sample_string_def readString_loop.simps)

text \<open>
  Claim C4, at the buffer \<open>12,\<close>: \<open>Next\<close> returns 3, one more than the width of
  the literal, moves the cursor past the comma and appends no token. Where a space or a
  closing brace ends the literal, the process ends in \<open>log.Fatalf\<close>.
\<close>

theorem readNumber_emits_no_token:
  "Next unicode_Digit (NewLexer ''12,'' []) =
     Some (Ok ((3, None),
       \<lparr>input = ''12,'', spare = [], tokens = [], line = 1, col = 1, pos = 3\<rparr>))
   \<and> Next unicode_Digit (NewLexer ''12 '' []) = Some (Fatal (UnexpectedLexer 0x20 1 0))
   \<and> Next unicode_Digit (NewLexer ''12}'' []) = Some (Fatal (UnexpectedLexer 0x7D 1 0))"
  by (simp add: lexer_eval readNumber_loop.simps)

text \<open>
  Claim C5, at the buffer \<open>1.2.3,\<close>: the second decimal point ends the process in
  \<open>log.Fatalf\<close>, and the position reported is \<open>l.pos\<close>, the byte offset 0 where the
  number starts. At the buffer \<open>{"a": 1.2.3}\<close> the lexer never reaches the number:
  after the brace the calls return the error "unexpected EOF at 1:1" at the first quote
  and leave the cursor there.
\<close>

theorem second_point_ends_process:
  "Next unicode_Digit (NewLexer ''1.2.3,'' []) = Some (Fatal (UnexpectedLexer 0x2E 1 0))
   \<and> Next_results unicode_Digit 3 (NewLexer sample_two_points []) =
       Some (Ok ([(1, None), (0, Some (ErrUnexpectedEOF 1 1)), (0, Some (ErrUnexpectedEOF 1 1))],
         \<lparr>input = sample_two_points, spare = [],
          tokens = [\<lparr>Type = LBRACE, Literal = ''LBRACE'', Line = 1, Col = 0, Pos = 0\<rparr>],
          line = 1, col = 1, pos = 1\<rparr>))"
  by (simp add: numeral_3_eq_3 lexer_eval readNumber_loop.simps readString_loop.simps
        sample_two_points_def)

text \<open>
  Claim C8, at a buffer of two newlines and an opening brace: the brace, on the third
  line, gets \<open>Line = 3\<close>, but its \<open>Col\<close> is 2, the byte offset in the buffer, not a
  column on that line, and its \<open>Pos\<close> is 0, not the byte offset.
\<close>

theorem token_Col_is_byte_offset:
  "Next_results unicode_Digit 3 (NewLexer sample_third_line []) =
     Some (Ok ([(1, None), (1, None), (1, None)],
       \<lparr>input = sample_third_line, spare = [],
        tokens = [\<lparr>Type = NEWLINE, Literal = ''NEWLINE'', Line = 2, Col = 0, Pos = 0\<rparr>,
                  \<lparr>Type = NEWLINE, Literal = ''NEWLINE'', Line = 3, Col = 1, Pos = 0\<rparr>,
                  \<lparr>Type = LBRACE, Literal = ''LBRACE'', Line = 3, Col = 2, Pos = 0\<rparr>],
        line = 3, col = 1, pos = 3\<rparr>))"
  by (simp add: numeral_3_eq_3 lexer_eval sample_third_line_def)



text \<open>
  Claim C9, as stated, fails: on \<open>{"a":1,"a":2}\<close> \<open>Parse\<close> returns a Document
  (an empty one) and reports no duplicate key.
\<close>

theorem Parse_sample_duplicate_returns:
  "Parse unicode_Digit (NewParser sample_duplicate []) =
     Some (Ok (\<lparr>index = Map.empty, elements = []\<rparr>,
       \<lparr>lexer = \<lparr>input = sample_duplicate, spare = [],
          tokens = [\<lparr>Type = LBRACE, Literal = ''LBRACE'', Line = 1, Col = 0, Pos = 0\<rparr>],
          line = 1, col = 1, pos = 1\<rparr>\<rparr>))"
  by (simp add: parser_eval lexer_eval sample_duplicate_def)

text \<open>
  Claim C9, amended. \<open>AddElement\<close> on an Object ends the process with "element with
  name ... already exists" when the map holds the name, and otherwise stores the element
  under the name and leaves every other key as it was: keys are unique within an Object.
\<close>

theorem AddElement_Object_unique_keys:
  "(mp name \<noteq> None \<longrightarrow> AddElement (Object p mp) name el = Fatal (ElementExists name))
   \<and> (mq key = None \<longrightarrow>
        AddElement (Object p mq) key el = Ok (Object p (mq(key \<mapsto> el))))"
  by (auto split: option.splits)

theorem AddElement_Object_unique_keys_witness:
  "AddElement (Object None [''a'' \<mapsto> Array None []]) ''a'' (Array None [])
     = Fatal (ElementExists ''a'')
   \<and> AddElement (Object None Map.empty) ''a'' (Array None [])
     = Ok (Object None [''a'' \<mapsto> Array None []])"
  using AddElement_Object_unique_keys
    [of "[''a'' \<mapsto> Array None []]" "''a''" None "Array None []" Map.empty "''a''"]
  by simp

end
